theory Spec2Isabelle
  imports Complex_Main
begin

section \<open>Python values, exceptions and effects\<close>

text \<open>
  The three quantlets (\<^verbatim>\<open>ISP_oneGroup.py\<close>, \<^verbatim>\<open>ISP_checkNormality.py\<close>,
  \<^verbatim>\<open>ISP_TimeSeries.py\<close>) are straight-line sequences of calls into numpy, scipy,
  pandas, matplotlib, pingouin and statsmodels. None of these libraries is part of the
  repository, so every routine of theirs is a field of the record \<open>library\<close> below and
  the functions of the scripts take the library as their first argument.

  A Python exception is a value of type \<open>exn\<close>; a call that can raise returns
  \<open>exn + 'a\<close>, with \<open>Inl\<close> for the exception. A finite double is the real number
  it denotes. Where only the formula matters the arithmetic is that of the reals; where
  the computed numbers matter the rounding of float64 is written out (\<open>fl64\<close> below).
  The one operation whose result need not be a real number (division, which yields
  \<^verbatim>\<open>inf\<close> or \<^verbatim>\<open>nan\<close> on a zero divisor in numpy) is left to the library.
\<close>

datatype exn = Exn string

text \<open>
  What a run leaves behind: the outside world (files, network, the state of the random
  number generator, figure windows), the lines printed to standard output, and the log
  of the library calls made so far, each with its outcome.
\<close>

datatype event = Returned string | Raised string exn

record 'w state =
  world :: 'w
  stdout :: "string list"
  calls :: "event list"

type_synonym ('w, 'a) run = "'w state \<Rightarrow> (exn + 'a) \<times> 'w state"

definition py_return :: "'a \<Rightarrow> ('w, 'a) run" where
  "py_return a s = (Inr a, s)"

text \<open>Statement sequencing: an exception of the first statement ends the run.\<close>

definition py_bind :: "('w, 'a) run \<Rightarrow> ('a \<Rightarrow> ('w, 'b) run) \<Rightarrow> ('w, 'b) run" where
  "py_bind m f s = (case m s of (Inl e, s1) \<Rightarrow> (Inl e, s1) | (Inr a, s1) \<Rightarrow> f a s1)"

text \<open>A library call that reads or changes the world.\<close>

definition call :: "string \<Rightarrow> ('w \<Rightarrow> (exn + 'a) \<times> 'w) \<Rightarrow> ('w, 'a) run" where
  "call nm f s =
     (case f (world s) of
        (Inl e, w1) \<Rightarrow> (Inl e, s\<lparr>world := w1, calls := calls s @ [Raised nm e]\<rparr>)
      | (Inr a, w1) \<Rightarrow> (Inr a, s\<lparr>world := w1, calls := calls s @ [Returned nm]\<rparr>))"

text \<open>A library call whose outcome depends on its arguments only.\<close>

definition calc :: "string \<Rightarrow> exn + 'a \<Rightarrow> ('w, 'a) run" where
  "calc nm r = call nm (\<lambda>w. (r, w))"

definition py_print :: "string \<Rightarrow> ('w, unit) run" where
  "py_print line s = (Inr (), s\<lparr>stdout := stdout s @ [line]\<rparr>)"

text \<open>\<^verbatim>\<open>str(n)\<close> for a non-negative Python integer.\<close>

definition digit_char :: "nat \<Rightarrow> char" where
  "digit_char d = char_of (48 + d)"

fun str_nat :: "nat \<Rightarrow> string" where
  "str_nat n = (if n < 10 then [digit_char n] else str_nat (n div 10) @ [digit_char (n mod 10)])"

declare str_nat.simps [simp del]

section \<open>Library objects\<close>

text \<open>A frozen scipy distribution: \<^verbatim>\<open>stats.t(df)\<close> and \<^verbatim>\<open>stats.norm(loc, scale)\<close>.\<close>

datatype dist = StudentT int | Normal real real

text \<open>
  A pandas Series: labelled cells in order. \<^verbatim>\<open>pd.Series(np.float64)\<close> is the series
  with the single cell \<open>0\<close> holding the type object itself.
\<close>

datatype label = Pos int | Key string

datatype cell = TypeObject string | Float real

type_synonym series = "(label \<times> cell) list"

definition series_setitem :: "series \<Rightarrow> label \<Rightarrow> cell \<Rightarrow> series" where
  "series_setitem sr k v =
     (if k \<in> fst ` set sr then map (\<lambda>(k1, v1). if k1 = k then (k1, v) else (k1, v1)) sr
      else sr @ [(k, v)])"

definition series_getitem :: "series \<Rightarrow> label \<Rightarrow> exn + cell" where
  "series_getitem sr k = (case map_of sr k of None \<Rightarrow> Inl (Exn ''KeyError'') | Some v \<Rightarrow> Inr v)"

text \<open>\<^verbatim>\<open>c > x\<close> for a cell and a float: a type object is not ordered against a number.\<close>

definition cell_gt :: "cell \<Rightarrow> real \<Rightarrow> exn + bool" where
  "cell_gt c x = (case c of Float p \<Rightarrow> Inr (p > x) | TypeObject _ \<Rightarrow> Inl (Exn ''TypeError''))"

text \<open>A pandas DataFrame: named columns.\<close>

type_synonym dataframe = "(string \<times> real list) list"

text \<open>The result of statsmodels' seasonal decomposition, and an ARIMA model and its fit.\<close>

record decompose_result =
  observed :: "real list"
  trend :: "real list"
  seasonal :: "real list"
  resid :: "real list"

record arima_model =
  endog :: "real list"
  model_order :: "nat \<times> nat \<times> nat"

record arima_results =
  fitted_model :: arima_model
  params :: "real list"

record 'w library =
  genfromtxt :: "string \<Rightarrow> string \<Rightarrow> 'w \<Rightarrow> (exn + real list) \<times> 'w"
  random_seed :: "nat \<Rightarrow> 'w \<Rightarrow> (exn + unit) \<times> 'w"
  rvs :: "dist \<Rightarrow> nat \<Rightarrow> 'w \<Rightarrow> (exn + real list) \<times> 'w"
  np_mean :: "real list \<Rightarrow> exn + real"
  np_std :: "real list \<Rightarrow> nat \<Rightarrow> exn + real"
  float_div :: "real \<Rightarrow> real \<Rightarrow> real"
  stats_sem :: "real list \<Rightarrow> exn + real"
  ppf :: "dist \<Rightarrow> real \<Rightarrow> exn + real"
  cdf :: "dist \<Rightarrow> real \<Rightarrow> exn + real"
  ttest_1samp :: "real list \<Rightarrow> real \<Rightarrow> exn + real \<times> real"
  wilcoxon :: "real list \<Rightarrow> exn + real \<times> real"
  normaltest :: "real list \<Rightarrow> exn + real \<times> real"
  shapiro :: "real list \<Rightarrow> exn + real \<times> real"
  lilliefors :: "real list \<Rightarrow> exn + real \<times> real"
  kstest :: "real list \<Rightarrow> string \<Rightarrow> exn + real \<times> real"
  format_float :: "string \<Rightarrow> real \<Rightarrow> string"
  series_repr :: "series \<Rightarrow> string"
  plt_hist :: "real list \<Rightarrow> 'w \<Rightarrow> (exn + unit) \<times> 'w"
  plt_show :: "'w \<Rightarrow> (exn + unit) \<times> 'w"
  qqplot :: "real list \<Rightarrow> 'w \<Rightarrow> (exn + unit) \<times> 'w"
  read_csv :: "string \<Rightarrow> nat \<Rightarrow> bool \<Rightarrow> string list \<Rightarrow> 'w \<Rightarrow> (exn + dataframe) \<times> 'w"
  df_head :: "dataframe \<Rightarrow> exn + dataframe"
  df_repr :: "dataframe \<Rightarrow> string"
  df_plot :: "dataframe \<Rightarrow> string \<Rightarrow> string \<Rightarrow> 'w \<Rightarrow> (exn + unit) \<times> 'w"
  ARIMA :: "real list \<Rightarrow> nat \<times> nat \<times> nat \<Rightarrow> 'w \<Rightarrow> (exn + arima_model) \<times> 'w"
  model_fit :: "arima_model \<Rightarrow> 'w \<Rightarrow> (exn + arima_results) \<times> 'w"
  summary :: "arima_results \<Rightarrow> exn + string"

section \<open>ISP\_oneGroup.py\<close>

text \<open>
  Lines 40 to 42 of \<^verbatim>\<open>check_mean\<close>: the frozen t distribution on \<^verbatim>\<open>len(data)-1\<close>
  degrees of freedom and
  \<^verbatim>\<open>ci = np.mean(data) + stats.sem(data)*np.array([-1,1])*tf.ppf(0.975)\<close>.
\<close>

definition confidence_interval :: "'w library \<Rightarrow> real list \<Rightarrow> ('w, real \<times> real) run" where
  "confidence_interval L data =
     (let tf = StudentT (int (length data) - 1) in
      py_bind (calc ''np.mean'' (np_mean L data)) (\<lambda>m.
      py_bind (calc ''stats.sem'' (stats_sem L data)) (\<lambda>se.
      py_bind (calc ''t.ppf'' (ppf L tf (975 / 1000))) (\<lambda>q.
      py_return (m + se * (- 1) * q, m + se * 1 * q)))))"

definition check_mean :: "'w library \<Rightarrow> ('w, real) run" where
  "check_mean L =
     (let inFile = ''altman_91.txt'' in
      py_bind (call ''np.genfromtxt'' (genfromtxt L inFile '','')) (\<lambda>data.
      py_bind (calc ''np.mean'' (np_mean L data)) (\<lambda>myMean.
      py_bind (calc ''np.std'' (np_std L data 1)) (\<lambda>mySD.
      py_bind (py_print (''Mean and SD: '' @ format_float L ''4.2f'' myMean @ '' and ''
                           @ format_float L ''4.2f'' mySD)) (\<lambda>_.
      py_bind (confidence_interval L data) (\<lambda>ci.
      py_bind (py_print (''The confidence intervals are '' @ format_float L ''4.2f'' (fst ci)
                           @ '' to '' @ format_float L ''4.2f'' (snd ci) @ ''.'')) (\<lambda>_.
      let checkValue = 7725 in
      py_bind (calc ''stats.ttest_1samp'' (ttest_1samp L data (real checkValue))) (\<lambda>(t, prob).
      py_bind (if prob < 5 / 100
               then py_print (format_float L ''4.2f'' (real checkValue)
                                @ '' is significantly different '' @ ''from the mean (p=''
                                @ format_float L ''5.3f'' prob @ '').'')
               else py_return ()) (\<lambda>_.
      py_bind (calc ''stats.wilcoxon'' (wilcoxon L (map (\<lambda>x. x - real checkValue) data)))
        (\<lambda>(rank, pVal).
      let issignificant = (if pVal < 5 / 100 then ''unlikely'' else ''likely'') in
      py_bind (py_print (''It is '' @ issignificant @ '' that the value is ''
                           @ str_nat checkValue)) (\<lambda>_.
      py_return prob)))))))))))"

text \<open>
  \<^verbatim>\<open>compareWithNormal\<close>. The middle segment of the printed line is an ordinary string
  literal, so its braces are characters of the line.
\<close>

definition comparison_line :: "'w library \<Rightarrow> real \<Rightarrow> real \<Rightarrow> string" where
  "comparison_line L tProb normProb =
     ''The probability from the t-test is '' @ ''{tProb:5.4f}, ''
       @ (''and from the normal distribution '' @ format_float L ''5.4f'' normProb)"

definition compareWithNormal :: "'w library \<Rightarrow> ('w, real) run" where
  "compareWithNormal L =
     py_bind (call ''np.random.seed'' (random_seed L 12345)) (\<lambda>_.
     let normDist = Normal 7 3 in
     py_bind (call ''rvs'' (rvs L normDist 100)) (\<lambda>data.
     let checkVal = 65 / 10 in
     py_bind (calc ''stats.ttest_1samp'' (ttest_1samp L data checkVal)) (\<lambda>(t, tProb).
     py_bind (calc ''np.mean'' (np_mean L data)) (\<lambda>mmean.
     py_bind (calc ''np.std'' (np_std L data 1)) (\<lambda>mstd.
     py_bind (calc ''stats.norm.cdf''
                (cdf L (Normal mmean (float_div L mstd (sqrt (real (length data))))) checkVal))
        (\<lambda>c.
     let normProb = c * 2 in
     py_bind (py_print (comparison_line L tProb normProb)) (\<lambda>_.
     py_return normProb)))))))"

subsection \<open>The confidence interval as float64 computes it\<close>




section \<open>ISP\_checkNormality.py\<close>

text \<open>
  \<^verbatim>\<open>(xs - np.mean(xs))/np.std(xs, ddof=1)\<close>, the argument of both Kolmogorov-Smirnov
  tests.
\<close>

definition standardized :: "'w library \<Rightarrow> real list \<Rightarrow> ('w, real list) run" where
  "standardized L xs =
     py_bind (calc ''np.mean'' (np_mean L xs)) (\<lambda>m.
     py_bind (calc ''np.std'' (np_std L xs 1)) (\<lambda>sd.
     py_return (map (\<lambda>x. float_div L (x - m) sd) xs)))"

definition check_normality :: "'w library \<Rightarrow> bool \<Rightarrow> ('w, cell) run" where
  "check_normality L show_flag =
     (let numData = 1000; myMean = 0; mySD = 3 in
      py_bind (call ''np.random.seed'' (random_seed L 12345)) (\<lambda>_.
      py_bind (call ''stats.norm.rvs'' (rvs L (Normal myMean mySD) numData)) (\<lambda>data.
      let fewData = take 100 data in
      py_bind (if show_flag
               then py_bind (call ''plt.hist'' (plt_hist L data)) (\<lambda>_.
                    call ''plt.show'' (plt_show L))
               else py_return ()) (\<lambda>_.
      py_bind (if show_flag
               then py_bind (call ''pg.qqplot'' (qqplot L data)) (\<lambda>_.
                    call ''plt.show'' (plt_show L))
               else py_return ()) (\<lambda>_.
      let pVals = [(Pos 0, TypeObject ''numpy.float64'')];
          pFewVals = [(Pos 0, TypeObject ''numpy.float64'')] in
      py_bind (calc ''stats.normaltest'' (normaltest L data)) (\<lambda>(_, p).
      let pVals = series_setitem pVals (Key ''Omnibus'') (Float p) in
      py_bind (calc ''stats.normaltest'' (normaltest L fewData)) (\<lambda>(_, p).
      let pFewVals = series_setitem pFewVals (Key ''Omnibus'') (Float p) in
      py_bind (calc ''stats.shapiro'' (shapiro L data)) (\<lambda>(_, p).
      let pVals = series_setitem pVals (Key ''Shapiro-Wilk'') (Float p) in
      py_bind (calc ''stats.shapiro'' (shapiro L fewData)) (\<lambda>(_, p).
      let pFewVals = series_setitem pFewVals (Key ''Shapiro-Wilk'') (Float p) in
      py_bind (calc ''lilliefors'' (lilliefors L data)) (\<lambda>(_, p).
      let pVals = series_setitem pVals (Key ''Lilliefors'') (Float p) in
      py_bind (calc ''lilliefors'' (lilliefors L fewData)) (\<lambda>(_, p).
      let pFewVals = series_setitem pFewVals (Key ''Lilliefors'') (Float p) in
      py_bind (standardized L data) (\<lambda>z.
      py_bind (calc ''stats.kstest'' (kstest L z ''norm'')) (\<lambda>(_, p).
      let pVals = series_setitem pVals (Key ''Kolmogorov-Smirnov'') (Float p) in
      py_bind (standardized L fewData) (\<lambda>z.
      py_bind (calc ''stats.kstest'' (kstest L z ''norm'')) (\<lambda>(_, p).
      let pFewVals = series_setitem pFewVals (Key ''Kolmogorov-Smirnov'') (Float p) in
      py_bind (py_print (''p-values for all '' @ str_nat (length data)
                           @ '' data points: ----------------'')) (\<lambda>_.
      py_bind (py_print (series_repr L pVals)) (\<lambda>_.
      py_bind (py_print ''p-values for the first 100 data points: ----------------'') (\<lambda>_.
      py_bind (py_print (series_repr L pFewVals)) (\<lambda>_.
      py_bind (calc ''Series.__getitem__'' (series_getitem pVals (Key ''Omnibus''))) (\<lambda>omni.
      py_bind (calc ''>'' (cell_gt omni (5 / 100))) (\<lambda>normal.
      py_bind (if normal then py_print ''Data are normally distributed'' else py_return ())
        (\<lambda>_.
      calc ''Series.__getitem__'' (series_getitem pVals (Key ''Kolmogorov-Smirnov'')))
      )))))))))))))))))))))"

section \<open>ISP\_TimeSeries.py\<close>

definition get_CO2_data :: "'w library \<Rightarrow> ('w, dataframe) run" where
  "get_CO2_data L =
     (let url = ''https://www.esrl.noaa.gov/gmd/webdata/ccgg/trends/co2/co2_mm_mlo.txt'' in
      py_bind (call ''pd.read_csv''
                 (read_csv L url 53 True
                    [''year'', ''month'', ''time'', ''co2'', ''deseasoned'',
                     ''nr_days'', ''std_days'', ''uncertainty''])) (\<lambda>df.
      py_bind (calc ''df.head'' (df_head L df)) (\<lambda>top.
      py_bind (py_print (df_repr L top)) (\<lambda>_.
      py_bind (call ''df.plot'' (df_plot L df ''time'' ''co2'')) (\<lambda>_.
      py_bind (call ''plt.show'' (plt_show L)) (\<lambda>_.
      py_return df))))))"

text \<open>
  Lines 107 to 113 of \<^verbatim>\<open>fit_ARIMA_models\<close>: the list \<^verbatim>\<open>orders\<close> and the loop over
  it. The body of the loop constructs \<^verbatim>\<open>ARIMA(seasonal_decomposition.resid, order=(1,0,1))\<close>,
  fits it and prints the summary of the fit; the loop variable \<^verbatim>\<open>order\<close> does not occur
  in the body. The rest of the function (a simulated series and two more fits) comes
  after the loop and is not part of this embedding.
\<close>

fun fit_each :: "'w library \<Rightarrow> real list \<Rightarrow> (nat \<times> nat \<times> nat) list \<Rightarrow> ('w, unit) run" where
  "fit_each L rs [] = py_return ()"
| "fit_each L rs (order # rest) =
     py_bind (call ''ARIMA'' (ARIMA L rs (1, 0, 1))) (\<lambda>model.
     py_bind (call ''model.fit'' (model_fit L model)) (\<lambda>fit.
     py_bind (calc ''model_fit.summary'' (summary L fit)) (\<lambda>txt.
     py_bind (py_print txt) (\<lambda>_.
     fit_each L rs rest))))"

definition orders :: "(nat \<times> nat \<times> nat) list" where
  "orders = [(1, 0, 1), (0, 0, 2)]"

definition fit_residual_models :: "'w library \<Rightarrow> decompose_result \<Rightarrow> ('w, unit) run" where
  "fit_residual_models L seasonal_decomposition =
     fit_each L (resid seasonal_decomposition) orders"

section \<open>Specification-side notions\<close>

text \<open>
  The exception carried by an event of the call log, if it is a raise; a log without
  raises; and what it means for the outcome of a run to be that of an uncaught exception:
  a run that ends in the exception \<open>e\<close> has made exactly one call that raised, this call
  is the last one of the log and it raised \<open>e\<close>; a run that returns a value has made no
  call that raised.
\<close>

fun raised :: "event \<Rightarrow> exn option" where
  "raised (Raised nm e) = Some e"
| "raised (Returned nm) = None"

definition no_raise :: "event list \<Rightarrow> bool" where
  "no_raise tr = list_all (\<lambda>ev. raised ev = None) tr"

fun propagated :: "(exn + 'a) \<times> 'w state \<Rightarrow> bool" where
  "propagated (Inl e, s) =
     (calls s \<noteq> [] \<and> raised (last (calls s)) = Some e \<and> no_raise (butlast (calls s)))"
| "propagated (Inr v, s) = no_raise (calls s)"

definition propagating :: "('w, 'a) run \<Rightarrow> bool" where
  "propagating m = (\<forall>s. no_raise (calls s) \<longrightarrow> propagated (m s))"

text \<open>The value a run returns, if it returns one.\<close>

definition value_of :: "(exn + 'a) \<times> 's \<Rightarrow> 'a option" where
  "value_of r = (case fst r of Inl e \<Rightarrow> None | Inr a \<Rightarrow> Some a)"

text \<open>
  The confidence level of an interval \<open>ci\<close> for a mean, where the estimate is \<open>m\<close>, its
  standard error is \<open>se\<close> and the pivot \<open>(m - \<mu>) / se\<close> has the distribution function
  \<open>F\<close>: the probability that \<open>\<mu>\<close> lies between the bounds, that is, that the pivot lies
  between \<open>(m - snd ci) / se\<close> and \<open>(m - fst ci) / se\<close>; for a distribution symmetric
  about zero this is the mass \<open>F\<close> gives to the interval \<open>(fst ci - m) / se\<close> to
  \<open>(snd ci - m) / se\<close>.
\<close>

definition coverage :: "(real \<Rightarrow> real) \<Rightarrow> real \<Rightarrow> real \<Rightarrow> real \<times> real \<Rightarrow> real" where
  "coverage F m se ci = F ((snd ci - m) / se) - F ((fst ci - m) / se)"

section \<open>A stub library to run the scripts on\<close>

text \<open>
  A small deterministic library and two machines, for running the scripts on concrete
  inputs. Mean, standard deviation and standard error are the textbook formulas. The
  distribution functions are those of Student's t distribution on one degree of freedom
  (the Cauchy distribution), \<open>1/2 + arctan x / \<pi>\<close> with quantiles
  \<open>tan (\<pi> (p - 1/2))\<close>, which is what a sample of two observations needs; the normal
  distribution borrows the same shape. The tests return fixed statistics and p-values
  that tell the test and the size of the sample apart. The ARIMA constructor records the
  order it is given.
\<close>

definition t1_cdf :: "real \<Rightarrow> real" where
  "t1_cdf x = 1 / 2 + arctan x / pi"

definition t1_ppf :: "real \<Rightarrow> real" where
  "t1_ppf p = tan (pi * (p - 1 / 2))"

definition fixed_point :: "nat \<Rightarrow> real \<Rightarrow> string" where
  "fixed_point d x =
     (let n = nat \<lfloor>\<bar>x\<bar> * 10 ^ d + 1 / 2\<rfloor>; frac = str_nat (n mod 10 ^ d)
      in (if x < 0 then ''-'' else []) @ str_nat (n div 10 ^ d) @ ''.''
           @ replicate (d - length frac) CHR ''0'' @ frac)"

definition mean_of :: "real list \<Rightarrow> real" where
  "mean_of xs = sum_list xs / real (length xs)"

definition std_of :: "real list \<Rightarrow> nat \<Rightarrow> real" where
  "std_of xs ddof =
     sqrt (sum_list (map (\<lambda>x. (x - mean_of xs)\<^sup>2) xs) / (real (length xs) - real ddof))"

record machine =
  files :: "(string \<times> real list) list"
  online :: bool
  display :: bool
  rng :: nat
  built :: "(nat \<times> nat \<times> nat) list"

definition stub :: "machine library" where
  "stub = \<lparr>
     genfromtxt = (\<lambda>name delim w.
        case map_of (files w) name of
          None \<Rightarrow> (Inl (Exn ''FileNotFoundError''), w)
        | Some xs \<Rightarrow> (Inr xs, w)),
     random_seed = (\<lambda>n w. (Inr (), w\<lparr>rng := n\<rparr>)),
     rvs = (\<lambda>d n w. (Inr (replicate n (real (rng w))), w)),
     np_mean = (\<lambda>xs. Inr (mean_of xs)),
     np_std = (\<lambda>xs ddof. Inr (std_of xs ddof)),
     float_div = (\<lambda>a b. a / b),
     stats_sem = (\<lambda>xs. Inr (std_of xs 1 / sqrt (real (length xs)))),
     ppf = (\<lambda>d p. Inr (t1_ppf p)),
     cdf = (\<lambda>d x. case d of StudentT df \<Rightarrow> Inr (t1_cdf x)
                           | Normal loc scale \<Rightarrow> Inr (t1_cdf ((x - loc) / scale))),
     ttest_1samp = (\<lambda>xs c. Inr (mean_of xs - c, 1 / 2)),
     wilcoxon = (\<lambda>xs. Inr (0, 1)),
     normaltest = (\<lambda>xs. Inr (1, real (length xs) / 1250)),
     shapiro = (\<lambda>xs. Inr (2, real (length xs) / 2000)),
     lilliefors = (\<lambda>xs. Inr (3, real (length xs) / 2500)),
     kstest = (\<lambda>xs nm. Inr (4, real (length xs) / 4000)),
     format_float = (\<lambda>spec x.
        fixed_point (if spec = ''4.2f'' then 2 else if spec = ''5.3f'' then 3 else 4) x),
     series_repr = (\<lambda>sr. concat (map (\<lambda>(k, v).
        (case k of Pos i \<Rightarrow> ''0'' | Key nm \<Rightarrow> nm) @ '' ''
          @ (case v of TypeObject t \<Rightarrow> t | Float p \<Rightarrow> fixed_point 6 p) @ ''; '') sr)),
     plt_hist = (\<lambda>xs w. (Inr (), w)),
     plt_show = (\<lambda>w. if display w then (Inr (), w) else (Inl (Exn ''TclError''), w)),
     qqplot = (\<lambda>xs w. (Inr (), w)),
     read_csv = (\<lambda>url skip ws names w.
        if online w then (Inr (map (\<lambda>c. (c, [])) names), w)
        else (Inl (Exn ''URLError''), w)),
     df_head = (\<lambda>df. Inr (map (\<lambda>(c, xs). (c, take 5 xs)) df)),
     df_repr = (\<lambda>df. concat (map (\<lambda>(c, xs). c @ '' '') df)),
     df_plot = (\<lambda>df cx cy w. (Inr (), w)),
     ARIMA = (\<lambda>xs ord w.
        (Inr \<lparr>endog = xs, model_order = ord\<rparr>, w\<lparr>built := built w @ [ord]\<rparr>)),
     model_fit = (\<lambda>m w. (Inr \<lparr>fitted_model = m, params = []\<rparr>, w)),
     summary = (\<lambda>r. case model_order (fitted_model r) of
        (p, d, q) \<Rightarrow>
          Inr (''ARIMA('' @ str_nat p @ '', '' @ str_nat d @ '', '' @ str_nat q @ '')''))
   \<rparr>"

text \<open>A run starts with nothing printed and no call made.\<close>

definition start :: "'w \<Rightarrow> 'w state" where
  "start w = \<lparr>world = w, stdout = [], calls = []\<rparr>"

text \<open>
  A machine without the data file, without network and without a display; and one that
  has all three, with a file of two observations.
\<close>

definition offline :: machine where
  "offline = \<lparr>files = [], online = False, display = False, rng = 0, built = []\<rparr>"

definition desk :: machine where
  "desk = \<lparr>files = [(''altman_91.txt'', [1, 3])], online = True, display = True, rng = 0,
           built = []\<rparr>"

definition residuals :: decompose_result where
  "residuals = \<lparr>observed = [], trend = [], seasonal = [], resid = [1, 2, 3]\<rparr>"




text \<open>
  The stub library with a sampler that returns sixes in the first half of the sample and
  eights in the second, so that the standard deviation is not zero.
\<close>

definition spread :: "machine library" where
  "spread = stub\<lparr>rvs := (\<lambda>d n w. (Inr (replicate (n div 2) 6 @ replicate (n - n div 2) 8), w))\<rparr>"

text \<open>What \<^verbatim>\<open>compareWithNormal\<close> returns on this library.\<close>

definition spread_prob :: real where
  "spread_prob = t1_cdf ((65 / 10 - 7) / (sqrt (100 / 99) / sqrt 100)) * 2"

named_theorems prop_intros

section \<open>Reasoning about runs\<close>

subsection \<open>What a successful run has done\<close>

lemma bind_prod_InrE:
  assumes "py_bind m (\<lambda>(a, b). f a b) s = (Inr v, s')"
  obtains a b s1 where "m s = (Inr (a, b), s1)" and "f a b s1 = (Inr v, s')"
  using assms by (auto simp: py_bind_def split: prod.splits sum.splits)

lemma bind_InrE:
  assumes "py_bind m f s = (Inr v, s')"
  obtains a s1 where "m s = (Inr a, s1)" and "f a s1 = (Inr v, s')"
  using assms by (auto simp: py_bind_def split: prod.splits sum.splits)

lemma call_InrE:
  assumes "call nm f s = (Inr a, s1)"
  obtains w1 where "f (world s) = (Inr a, w1)"
    and "s1 = s\<lparr>world := w1, calls := calls s @ [Returned nm]\<rparr>"
  using assms by (auto simp: call_def split: prod.splits sum.splits)

lemma calc_InrE:
  assumes "calc nm r s = (Inr a, s1)"
  obtains "r = Inr a" and "s1 = s\<lparr>calls := calls s @ [Returned nm]\<rparr>"
  using assms by (auto simp: calc_def call_def split: prod.splits sum.splits)

lemma print_InrE:
  assumes "py_print line s = (Inr a, s1)"
  obtains "s1 = s\<lparr>stdout := stdout s @ [line]\<rparr>"
  using assms by (auto simp: py_print_def)

lemma return_InrE:
  assumes "py_return x s = (Inr a, s1)"
  obtains "a = x" and "s1 = s"
  using assms by (auto simp: py_return_def)

lemma confidence_interval_Inr:
  assumes "confidence_interval L data s = (Inr ci, s')"
  shows "\<exists>m se q. np_mean L data = Inr m \<and> stats_sem L data = Inr se
            \<and> ppf L (StudentT (int (length data) - 1)) (975 / 1000) = Inr q
            \<and> ci = (m - se * q, m + se * q)"
  using assms unfolding confidence_interval_def Let_def
  by (elim bind_InrE calc_InrE return_InrE) simp

lemma standardized_Inr:
  assumes "standardized L xs s = (Inr z, s')"
  shows "\<exists>m sd. np_mean L xs = Inr m \<and> np_std L xs 1 = Inr sd
            \<and> z = map (\<lambda>x. float_div L (x - m) sd) xs"
  using assms unfolding standardized_def
  by (elim bind_InrE calc_InrE return_InrE) simp

text \<open>
  The value \<^verbatim>\<open>check_mean\<close> returns is the second component of what
  \<^verbatim>\<open>stats.ttest_1samp(data, 7725)\<close> returned on the contents of \<^verbatim>\<open>altman_91.txt\<close>,
  and the value \<^verbatim>\<open>compareWithNormal\<close> returns is twice the normal distribution
  function at 6.5, with the sample mean as location and the standard error as scale.
\<close>

lemma check_mean_returns_ttest_pvalue:
  assumes "check_mean L s = (Inr v, s')"
  shows "\<exists>data w1 t. genfromtxt L ''altman_91.txt'' '','' (world s) = (Inr data, w1)
           \<and> ttest_1samp L data 7725 = Inr (t, v)"
  using assms unfolding check_mean_def Let_def
  by (elim bind_prod_InrE bind_InrE calc_InrE call_InrE return_InrE) auto

lemma compareWithNormal_returns_normProb:
  assumes "compareWithNormal L s = (Inr v, s')"
  shows "\<exists>w0 w1 data m sd c.
           random_seed L 12345 (world s) = (Inr (), w0)
         \<and> rvs L (Normal 7 3) 100 w0 = (Inr data, w1)
         \<and> np_mean L data = Inr m \<and> np_std L data 1 = Inr sd
         \<and> cdf L (Normal m (float_div L sd (sqrt (real (length data))))) (65 / 10) = Inr c
         \<and> v = c * 2"
  using assms unfolding compareWithNormal_def Let_def
  by (elim bind_prod_InrE bind_InrE calc_InrE call_InrE return_InrE print_InrE) auto

subsection \<open>Runs without a handler\<close>

lemma propagating_return [prop_intros]: "propagating (py_return a)"
  by (simp add: propagating_def py_return_def)

lemma propagating_print [prop_intros]: "propagating (py_print line)"
  by (simp add: propagating_def py_print_def)

lemma propagating_call [prop_intros]: "propagating (call nm f)"
  by (auto simp: propagating_def call_def no_raise_def split: prod.splits sum.splits)

lemma propagating_calc [prop_intros]: "propagating (calc nm r)"
  by (simp add: calc_def propagating_call)

lemma propagating_bind [prop_intros]:
  assumes "propagating m" and "\<And>a. propagating (f a)"
  shows "propagating (py_bind m f)"
  unfolding propagating_def
proof (intro allI impI)
  fix s :: "'a state"
  assume ok: "no_raise (calls s)"
  obtain r s1 where ms: "m s = (r, s1)" by (cases "m s")
  from assms(1) ok have p: "propagated (m s)" by (simp add: propagating_def)
  show "propagated (py_bind m f s)"
  proof (cases r)
    case (Inl e)
    with ms p show ?thesis by (simp add: py_bind_def)
  next
    case (Inr a)
    with ms p have "no_raise (calls s1)" by simp
    with assms(2) [of a] have "propagated (f a s1)" by (simp add: propagating_def)
    with ms Inr show ?thesis by (simp add: py_bind_def)
  qed
qed

lemma propagating_if [prop_intros]:
  "propagating m \<Longrightarrow> propagating n \<Longrightarrow> propagating (if b then m else n)"
  by simp

lemma propagating_case_prod [prop_intros]:
  "(\<And>a b. propagating (f a b)) \<Longrightarrow> propagating (case_prod f x)"
  by (cases x) simp

lemma propagating_confidence_interval [prop_intros]:
  "propagating (confidence_interval L data)"
  unfolding confidence_interval_def Let_def by (intro prop_intros)

lemma propagating_standardized [prop_intros]: "propagating (standardized L xs)"
  unfolding standardized_def by (intro prop_intros)

lemma propagating_check_mean: "propagating (check_mean L)"
  unfolding check_mean_def Let_def by (intro prop_intros)

lemma propagating_check_normality: "propagating (check_normality L show_flag)"
  unfolding check_normality_def Let_def by (intro prop_intros)

lemma propagating_get_CO2_data: "propagating (get_CO2_data L)"
  unfolding get_CO2_data_def Let_def by (intro prop_intros)

subsection \<open>The loop over the orders\<close>

lemma fit_each_ignores_orders: "fit_each L rs os = fit_each L rs (map (\<lambda>_. (1, 0, 1)) os)"
  by (induction os) simp_all

subsection \<open>Rounding to float64\<close>




















subsection \<open>Two-sided intervals\<close>

lemma coverage_two_sided:
  assumes "0 < se" and "\<forall>x. F (- x) = 1 - F x"
  shows "coverage F m se (m - se * q, m + se * q) = 2 * F q - 1"
  using assms by (simp add: coverage_def)

text \<open>
  In exact arithmetic the bounds of \<open>confidence_interval\<close> lie strictly on either side
  of the mean.
\<close>

lemma exact_interval_brackets_mean:
  fixes F :: "real \<Rightarrow> real"
  assumes run: "confidence_interval L data s = (Inr ci, s')"
    and mean: "np_mean L data = Inr m"
    and sem: "stats_sem L data = Inr se" "0 < se"
    and quantile: "ppf L (StudentT (int (length data) - 1)) (975 / 1000) = Inr q"
      "F q = 975 / 1000"
    and t: "strict_mono F" "F 0 = 1 / 2"
  shows "fst ci < m \<and> m < snd ci"
proof -
  from confidence_interval_Inr [OF run] mean sem(1) quantile(1)
  have ci: "ci = (m - se * q, m + se * q)" by auto
  have "F 0 < F q" using quantile(2) t(2) by simp
  then have "0 < q" using t(1) by (simp add: strict_mono_less)
  then have "0 < se * q" using sem(2) by simp
  then show ?thesis using ci by simp
qed

lemma t1_cdf_ppf:
  assumes "0 < p" "p < 1"
  shows "t1_cdf (t1_ppf p) = p"
proof -
  have "- (pi / 2) < pi * (p - 1 / 2)" "pi * (p - 1 / 2) < pi / 2"
    using assms by (simp_all add: field_simps)
  then have "arctan (tan (pi * (p - 1 / 2))) = pi * (p - 1 / 2)"
    by (rule arctan_tan)
  then show ?thesis by (simp add: t1_cdf_def t1_ppf_def field_simps)
qed



lemma t1_cdf_symmetric: "\<forall>x. t1_cdf (- x) = 1 - t1_cdf x"
  by (simp add: t1_cdf_def arctan_minus)

lemma t1_quantile: "t1_cdf (t1_ppf (975 / 1000)) = 975 / 1000"
  by (rule t1_cdf_ppf) simp_all

subsection \<open>Runs on the stub library\<close>

lemmas run_defs = py_bind_def call_def calc_def py_print_def py_return_def start_def

lemma stub_simps:
  "genfromtxt stub name delim w =
     (case map_of (files w) name of None \<Rightarrow> (Inl (Exn ''FileNotFoundError''), w)
      | Some xs \<Rightarrow> (Inr xs, w))"
  "random_seed stub n w = (Inr (), w\<lparr>rng := n\<rparr>)"
  "rvs stub d n w = (Inr (replicate n (real (rng w))), w)"
  "np_mean stub xs = Inr (mean_of xs)"
  "np_std stub xs ddof = Inr (std_of xs ddof)"
  "float_div stub a b = a / b"
  "stats_sem stub xs = Inr (std_of xs 1 / sqrt (real (length xs)))"
  "ppf stub d p = Inr (t1_ppf p)"
  "cdf stub d x = (case d of StudentT df \<Rightarrow> Inr (t1_cdf x)
                           | Normal loc scale \<Rightarrow> Inr (t1_cdf ((x - loc) / scale)))"
  "ttest_1samp stub xs c = Inr (mean_of xs - c, 1 / 2)"
  "wilcoxon stub xs = Inr (0, 1)"
  "normaltest stub xs = Inr (1, real (length xs) / 1250)"
  "shapiro stub xs = Inr (2, real (length xs) / 2000)"
  "lilliefors stub xs = Inr (3, real (length xs) / 2500)"
  "kstest stub xs nm = Inr (4, real (length xs) / 4000)"
  "plt_hist stub xs w = (Inr (), w)"
  "plt_show stub w = (if display w then (Inr (), w) else (Inl (Exn ''TclError''), w))"
  "qqplot stub xs w = (Inr (), w)"
  "read_csv stub url skip ws names w =
     (if online w then (Inr (map (\<lambda>c. (c, [])) names), w) else (Inl (Exn ''URLError''), w))"
  "df_head stub df = Inr (map (\<lambda>(c, xs). (c, take 5 xs)) df)"
  "df_plot stub df cx cy w = (Inr (), w)"
  "ARIMA stub xs ord w =
     (Inr \<lparr>endog = xs, model_order = ord\<rparr>, w\<lparr>built := built w @ [ord]\<rparr>)"
  "model_fit stub am w = (Inr \<lparr>fitted_model = am, params = []\<rparr>, w)"
  by (simp_all add: stub_def)

lemma mean_of_replicate: "0 < n \<Longrightarrow> mean_of (replicate n c) = c"
  by (simp add: mean_of_def sum_list_replicate)

lemma std_of_replicate: "0 < n \<Longrightarrow> std_of (replicate n c) ddof = 0"
  by (simp add: std_of_def mean_of_replicate sum_list_replicate)

lemma one_positive: "(0::real) < 1"
  by simp

lemma stub_mean: "np_mean stub [1, 3] = Inr 2"
  by (simp add: stub_simps mean_of_def)

lemma stub_sem: "stats_sem stub [1, 3] = Inr 1"
  by (simp add: stub_simps mean_of_def std_of_def)

lemma stub_quantile:
  "ppf stub (StudentT (int (length [1, 3 :: real]) - 1)) (975 / 1000) = Inr (t1_ppf (975 / 1000))"
  by (simp add: stub_simps)

lemma stub_ci_fst:
  "fst (confidence_interval stub [1, 3] (start desk)) =
     Inr (2 - 1 * t1_ppf (975 / 1000), 2 + 1 * t1_ppf (975 / 1000))"
  by (simp add: confidence_interval_def stub_simps run_defs mean_of_def std_of_def)

lemma stub_ci:
  "confidence_interval stub [1, 3] (start desk) =
     (Inr (2 - 1 * t1_ppf (975 / 1000), 2 + 1 * t1_ppf (975 / 1000)),
      snd (confidence_interval stub [1, 3] (start desk)))"
  using stub_ci_fst by (simp add: prod_eq_iff)

lemma offline_check_mean:
  "check_mean stub (start offline) =
     (Inl (Exn ''FileNotFoundError''),
      \<lparr>world = offline, stdout = [],
       calls = [Raised ''np.genfromtxt'' (Exn ''FileNotFoundError'')]\<rparr>)"
  by (simp add: check_mean_def stub_simps run_defs offline_def)

lemma offline_get_CO2_data:
  "get_CO2_data stub (start offline) =
     (Inl (Exn ''URLError''),
      \<lparr>world = offline, stdout = [], calls = [Raised ''pd.read_csv'' (Exn ''URLError'')]\<rparr>)"
  by (simp add: get_CO2_data_def stub_simps run_defs offline_def)

lemma offline_check_normality:
  "check_normality stub True (start offline) =
     (Inl (Exn ''TclError''),
      \<lparr>world = offline\<lparr>rng := 12345\<rparr>, stdout = [],
       calls = [Returned ''np.random.seed'', Returned ''stats.norm.rvs'', Returned ''plt.hist'',
                Raised ''plt.show'' (Exn ''TclError'')]\<rparr>)"
  by (simp add: check_normality_def stub_simps run_defs offline_def)










lemma spread_simps:
  "random_seed spread n w = (Inr (), w\<lparr>rng := n\<rparr>)"
  "rvs spread d n w = (Inr (replicate (n div 2) 6 @ replicate (n - n div 2) 8), w)"
  "np_mean spread xs = Inr (mean_of xs)"
  "np_std spread xs ddof = Inr (std_of xs ddof)"
  "float_div spread a b = a / b"
  "cdf spread d x = (case d of StudentT df \<Rightarrow> Inr (t1_cdf x)
                           | Normal loc scale \<Rightarrow> Inr (t1_cdf ((x - loc) / scale)))"
  "ttest_1samp spread xs c = Inr (mean_of xs - c, 1 / 2)"
  by (simp_all add: spread_def stub_def)

lemma mean_spread: "mean_of (replicate 50 6 @ replicate 50 8) = 7"
  by (simp add: mean_of_def sum_list_replicate)

lemma std_spread: "std_of (replicate 50 6 @ replicate 50 8) (Suc 0) = sqrt (100 / 99)"
  by (simp add: std_of_def mean_spread sum_list_replicate)

lemma spread_prob_less: "spread_prob < 1 / 2"
proof -
  define x :: real where "x = (65 / 10 - 7) / (sqrt (100 / 99) / sqrt 100)"
  have "sqrt (100 / 99 / 100) < (1 / 2 :: real)"
    by (rule real_less_lsqrt) (simp_all add: power2_eq_square)
  then have small: "sqrt (100 / 99) / sqrt 100 < (1 / 2 :: real)"
    by (simp only: real_sqrt_divide)
  have pos: "0 < sqrt (100 / 99) / sqrt (100 :: real)" by simp
  have "x = - (1 / 2) / (sqrt (100 / 99) / sqrt 100)" by (simp add: x_def)
  also have "\<dots> < - 1" using small pos by (simp add: field_simps)
  finally have "arctan x < arctan (- 1)" by (simp only: arctan_less_iff)
  then have "arctan x < - (pi / 4)" by (simp add: arctan_minus arctan_one)
  then have "arctan x / pi < - (1 / 4)" by (simp add: field_simps)
  moreover have "spread_prob = (1 / 2 + arctan x / pi) * 2"
    by (simp only: spread_prob_def t1_cdf_def x_def)
  ultimately show ?thesis by simp
qed

lemma spread_ttest:
  "ttest_1samp spread (replicate 50 6 @ replicate 50 8) (65 / 10) = Inr (1 / 2, 1 / 2)"
  by (simp add: spread_simps mean_spread)

lemma desk_compareWithNormal_spread:
  "fst (compareWithNormal spread (start desk)) = Inr spread_prob"
  by (simp add: compareWithNormal_def spread_simps run_defs desk_def mean_spread std_spread
      Let_def spread_prob_def)

lemma desk_check_normality:
  "fst (check_normality stub False (start desk)) = Inr (Float (1 / 4))"
  by (simp add: check_normality_def standardized_def stub_simps run_defs desk_def
      series_setitem_def series_getitem_def cell_gt_def Let_def)

section \<open>The claims\<close>

text \<open>
  C1. In \<^verbatim>\<open>fit_ARIMA_models\<close>, each iteration of the loop over
  \<^verbatim>\<open>orders = [(1,0,1), (0,0,2)]\<close> is claimed to construct the ARIMA model of the
  current order. Run on the stub library, whose constructor records the order it
  receives, the loop passes \<open>(1, 0, 1)\<close> in both iterations: the second element of the
  list, \<open>(0, 0, 2)\<close>, never reaches the constructor.
\<close>

theorem fit_residual_models_orders_passed:
  "orders = [(1, 0, 1), (0, 0, 2)]
   \<and> built (world (snd (fit_residual_models stub residuals (start desk))))
       = [(1, 0, 1), (1, 0, 1)]"
  by (simp add: fit_residual_models_def orders_def residuals_def stub_simps run_defs desk_def
      stub_def)

text \<open>
  C2, as stated: the interval built in \<^verbatim>\<open>check_mean\<close> has confidence level 97.5 percent.
  On the sample \<open>[1, 3]\<close>, with the t distribution on one degree of freedom, the level of
  the interval is not 0.975.
\<close>

theorem check_mean_level_counterexample:
  "map_option (coverage t1_cdf 2 1) (value_of (confidence_interval stub [1, 3] (start desk)))
     \<noteq> Some (975 / 1000)"
proof -
  have "coverage t1_cdf 2 1 (2 - 1 * t1_ppf (975 / 1000), 2 + 1 * t1_ppf (975 / 1000))
          = 2 * t1_cdf (t1_ppf (975 / 1000)) - 1"
    by (rule coverage_two_sided [OF one_positive t1_cdf_symmetric])
  then have "coverage t1_cdf 2 1 (2 - 1 * t1_ppf (975 / 1000), 2 + 1 * t1_ppf (975 / 1000))
          = 95 / 100"
    using t1_quantile by simp
  then show ?thesis by (simp add: value_of_def stub_ci_fst)
qed

text \<open>
  C2, amended: the interval built in \<^verbatim>\<open>check_mean\<close> has confidence level 95 percent.
  Whenever the interval is computed, the standard error is positive, and \<open>ppf\<close> returns
  the 0.975 quantile of a distribution function \<open>F\<close> that is symmetric about zero (as
  that of Student's t distribution is), the level of the interval under \<open>F\<close> is 0.95:
  the 0.975 quantile leaves 2.5 percent in each tail.
\<close>

theorem confidence_interval_level:
  fixes F :: "real \<Rightarrow> real"
  assumes run: "confidence_interval L data s = (Inr ci, s')"
    and mean: "np_mean L data = Inr m"
    and sem: "stats_sem L data = Inr se" "0 < se"
    and quantile: "ppf L (StudentT (int (length data) - 1)) (975 / 1000) = Inr q"
      "F q = 975 / 1000"
    and symmetric: "\<forall>x. F (- x) = 1 - F x"
  shows "coverage F m se ci = 95 / 100"
proof -
  from confidence_interval_Inr [OF run] mean sem(1) quantile(1)
  have "ci = (m - se * q, m + se * q)" by auto
  then have "coverage F m se ci = 2 * F q - 1"
    using coverage_two_sided [OF sem(2) symmetric] by simp
  then show ?thesis using quantile(2) by simp
qed

theorem confidence_interval_level_witness:
  "np_mean stub [1, 3] = Inr 2 \<and> stats_sem stub [1, 3] = Inr 1 \<and> (0::real) < 1
   \<and> ppf stub (StudentT (int (length [1, 3 :: real]) - 1)) (975 / 1000)
       = Inr (t1_ppf (975 / 1000))
   \<and> t1_cdf (t1_ppf (975 / 1000)) = 975 / 1000
   \<and> (\<forall>x. t1_cdf (- x) = 1 - t1_cdf x)
   \<and> value_of (confidence_interval stub [1, 3] (start desk))
       = Some (2 - 1 * t1_ppf (975 / 1000), 2 + 1 * t1_ppf (975 / 1000))
   \<and> coverage t1_cdf 2 1 (2 - 1 * t1_ppf (975 / 1000), 2 + 1 * t1_ppf (975 / 1000)) = 95 / 100"
proof -
  have v: "value_of (confidence_interval stub [1, 3] (start desk))
       = Some (2 - 1 * t1_ppf (975 / 1000), 2 + 1 * t1_ppf (975 / 1000))"
    by (simp add: value_of_def stub_ci_fst)
  have "coverage t1_cdf 2 1 (2 - 1 * t1_ppf (975 / 1000), 2 + 1 * t1_ppf (975 / 1000))
          = 95 / 100"
    by (rule confidence_interval_level [where F = t1_cdf, OF stub_ci stub_mean stub_sem
          one_positive stub_quantile t1_quantile t1_cdf_symmetric])
  with v stub_mean stub_sem stub_quantile t1_quantile t1_cdf_symmetric show ?thesis
    by simp
qed




text \<open>
  C8. \<^verbatim>\<open>check_mean\<close>, \<^verbatim>\<open>check_normality\<close> and \<^verbatim>\<open>get_CO2_data\<close> handle no exception of a
  library call. Started from a log without raises, each of them either returns a value,
  and then no call has raised, or ends in an exception, and then exactly one call has
  raised, it is the last call made, and its exception is the outcome of the run: the
  exception reaches the caller as it was raised, nothing is called after it, and no value
  is returned.
\<close>

theorem exceptions_propagate:
  assumes "no_raise (calls s)"
  shows "propagated (check_mean L s) \<and> propagated (check_normality L show_flag s)
         \<and> propagated (get_CO2_data L s)"
  using assms propagating_check_mean [of L] propagating_check_normality [of L show_flag]
    propagating_get_CO2_data [of L]
  by (simp add: propagating_def)

theorem exceptions_propagate_witness:
  "no_raise (calls (start offline))
   \<and> propagated (check_mean stub (start offline))
   \<and> propagated (check_normality stub True (start offline))
   \<and> propagated (get_CO2_data stub (start offline))
   \<and> fst (check_mean stub (start offline)) = Inl (Exn ''FileNotFoundError'')
   \<and> fst (check_normality stub True (start offline)) = Inl (Exn ''TclError'')
   \<and> fst (get_CO2_data stub (start offline)) = Inl (Exn ''URLError'')"
proof -
  have ok: "no_raise (calls (start offline :: machine state))"
    by (simp add: start_def no_raise_def)
  from exceptions_propagate [OF ok, of stub True] ok show ?thesis
    by (simp add: offline_check_mean offline_get_CO2_data offline_check_normality)
qed

text \<open>
  C9. \<^verbatim>\<open>check_normality\<close> returns one value, the p-value of the Kolmogorov-Smirnov test
  on the standardized full sample: the sample is what \<^verbatim>\<open>stats.norm.rvs(0, 3, size=1000)\<close>
  returned right after seeding with 12345, it is standardized with its own mean and its
  standard deviation with \<^verbatim>\<open>ddof=1\<close>, and the value returned is the second component of
  what \<^verbatim>\<open>stats.kstest\<close> returned on it.
\<close>

theorem check_normality_returns_ks:
  assumes "check_normality L show_flag s = (Inr v, s')"
  shows "\<exists>w0 w1 data m sd D p.
           random_seed L 12345 (world s) = (Inr (), w0)
         \<and> rvs L (Normal 0 3) 1000 w0 = (Inr data, w1)
         \<and> np_mean L data = Inr m \<and> np_std L data 1 = Inr sd
         \<and> kstest L (map (\<lambda>x. float_div L (x - m) sd) data) ''norm'' = Inr (D, p)
         \<and> v = Float p"
  using assms unfolding check_normality_def Let_def
  apply (elim bind_prod_InrE bind_InrE calc_InrE call_InrE)
  apply (drule standardized_Inr)+
  apply (elim exE conjE)
  apply (simp add: series_setitem_def series_getitem_def)
  done

theorem check_normality_returns_ks_witness:
  "fst (check_normality stub False (start desk)) = Inr (Float (1 / 4))
   \<and> (\<exists>w0 w1 data m sd D p.
           random_seed stub 12345 (world (start desk)) = (Inr (), w0)
         \<and> rvs stub (Normal 0 3) 1000 w0 = (Inr data, w1)
         \<and> np_mean stub data = Inr m \<and> np_std stub data 1 = Inr sd
         \<and> kstest stub (map (\<lambda>x. float_div stub (x - m) sd) data) ''norm'' = Inr (D, p)
         \<and> Float (1 / 4) = Float p)"
proof -
  have run: "check_normality stub False (start desk)
               = (Inr (Float (1 / 4)), snd (check_normality stub False (start desk)))"
    using desk_check_normality by (simp add: prod_eq_iff)
  from desk_check_normality check_normality_returns_ks [OF run] show ?thesis
    by (rule conjI)
qed

text \<open>
  C10. Every run of \<^verbatim>\<open>compareWithNormal\<close> that reaches its \<^verbatim>\<open>print\<close> prints one line.
  The line holds the characters \<^verbatim>\<open>{tProb:5.4f}\<close> where the probability of the t-test was
  meant to stand: \<open>tProb\<close>, the second component of what \<^verbatim>\<open>stats.ttest_1samp\<close>
  returned, occurs nowhere in it. The number that follows is the probability from the
  normal distribution, formatted with \<^verbatim>\<open>5.4f\<close>: twice what \<^verbatim>\<open>stats.norm.cdf\<close> returned
  at 6.5 with the sample mean as location and the standard deviation over the square
  root of the sample size as scale, which is also the value returned.
\<close>

theorem compareWithNormal_prints_placeholder:
  assumes "compareWithNormal L s = (Inr v, s')"
  shows "\<exists>w0 w1 data t tProb m sd c.
           random_seed L 12345 (world s) = (Inr (), w0)
         \<and> rvs L (Normal 7 3) 100 w0 = (Inr data, w1)
         \<and> ttest_1samp L data (65 / 10) = Inr (t, tProb)
         \<and> np_mean L data = Inr m \<and> np_std L data 1 = Inr sd
         \<and> cdf L (Normal m (float_div L sd (sqrt (real (length data))))) (65 / 10) = Inr c
         \<and> v = c * 2
         \<and> stdout s' = stdout s @
              [''The probability from the t-test is {tProb:5.4f}, and from the normal distribution ''
                 @ format_float L ''5.4f'' (c * 2)]"
  using assms unfolding compareWithNormal_def Let_def
  by (elim bind_prod_InrE bind_InrE calc_InrE call_InrE return_InrE print_InrE)
     (auto simp: comparison_line_def)

theorem compareWithNormal_prints_placeholder_witness:
  "fst (compareWithNormal spread (start desk)) = Inr spread_prob \<and> spread_prob < 1 / 2
   \<and> ttest_1samp spread (replicate 50 6 @ replicate 50 8) (65 / 10) = Inr (1 / 2, 1 / 2)
   \<and> (\<exists>w0 w1 data t tProb m sd c.
           random_seed spread 12345 (world (start desk)) = (Inr (), w0)
         \<and> rvs spread (Normal 7 3) 100 w0 = (Inr data, w1)
         \<and> ttest_1samp spread data (65 / 10) = Inr (t, tProb)
         \<and> np_mean spread data = Inr m \<and> np_std spread data 1 = Inr sd
         \<and> cdf spread (Normal m (float_div spread sd (sqrt (real (length data))))) (65 / 10)
             = Inr c
         \<and> spread_prob = c * 2
         \<and> stdout (snd (compareWithNormal spread (start desk))) = stdout (start desk) @
              [''The probability from the t-test is {tProb:5.4f}, and from the normal distribution ''
                 @ format_float spread ''5.4f'' (c * 2)])"
proof -
  have run: "compareWithNormal spread (start desk)
               = (Inr spread_prob, snd (compareWithNormal spread (start desk)))"
    using desk_compareWithNormal_spread by (simp add: prod_eq_iff)
  from desk_compareWithNormal_spread spread_prob_less spread_ttest
    compareWithNormal_prints_placeholder [OF run]
  show ?thesis by (intro conjI)
qed

end
